theory Spec2Isabelle
  imports Complex_Main
begin

section \<open>Go values used by \<^verbatim>\<open>devices.go\<close>\<close>

text \<open>
  A Go slice is either \<^verbatim>\<open>nil\<close> or a sequence of elements; \<^verbatim>\<open>len\<close> of the nil slice
  is 0 and \<^verbatim>\<open>append\<close> to the nil slice allocates. A \<^verbatim>\<open>float64\<close> is modelled by the real
  number it denotes (rounding, infinities and NaN are outside the model). A run-time panic
  is a value of type \<open>panic\<close>; a function that can panic returns \<open>panic + 'a\<close>.
\<close>

type_synonym 'a slice = "'a list option"

definition len :: "'a slice \<Rightarrow> nat" where
  "len s = (case s of None \<Rightarrow> 0 | Some xs \<Rightarrow> length xs)"

definition append_slice :: "'a slice \<Rightarrow> 'a \<Rightarrow> 'a slice" where
  "append_slice s x = (case s of None \<Rightarrow> Some [x] | Some xs \<Rightarrow> Some (xs @ [x]))"

definition elems :: "'a slice \<Rightarrow> 'a list" where
  "elems s = (case s of None \<Rightarrow> [] | Some xs \<Rightarrow> xs)"

datatype panic = IndexOutOfRange | NilDereference

definition index :: "'a list \<Rightarrow> nat \<Rightarrow> panic + 'a" where
  "index xs i = (if i < length xs then Inr (xs ! i) else Inl IndexOutOfRange)"

definition bind :: "panic + 'a \<Rightarrow> ('a \<Rightarrow> panic + 'b) \<Rightarrow> panic + 'b" where
  "bind m f = (case m of Inl p \<Rightarrow> Inl p | Inr x \<Rightarrow> f x)"

subsection \<open>\<^verbatim>\<open>strings.Split\<close> and \<^verbatim>\<open>strings.ReplaceAll\<close>\<close>

text \<open>
  \<^verbatim>\<open>strings.Split(s, sep)\<close> for a non-empty separator: the pieces between the
  non-overlapping occurrences of \<open>sep\<close>, found left to right; always at least one piece.
  \<open>acc\<close> holds the current piece, reversed.
\<close>

function Split_go :: "string \<Rightarrow> string \<Rightarrow> string \<Rightarrow> string list" where
  "Split_go sep acc [] = [rev acc]"
| "Split_go sep acc (c # cs) =
     (if sep \<noteq> [] \<and> take (length sep) (c # cs) = sep
      then rev acc # Split_go sep [] (drop (length sep) (c # cs))
      else Split_go sep (c # acc) cs)"
  by pat_completeness auto
termination
  by (relation "measure (\<lambda>(sep, acc, s). length s)") (auto simp: neq_Nil_conv)

definition Split :: "string \<Rightarrow> string \<Rightarrow> string list" where
  "Split s sep = Split_go sep [] s"

definition LF :: char where "LF = CHR 0x0A"
definition CR :: char where "CR = CHR 0x0D"

text \<open>\<^verbatim>\<open>strings.ReplaceAll(s, "\r", "")\<close>: every carriage return is removed.\<close>

definition strip_CR :: "string \<Rightarrow> string" where
  "strip_CR s = filter (\<lambda>c. c \<noteq> CR) s"

subsection \<open>\<^verbatim>\<open>strconv.ParseInt(s, 10, 32)\<close>\<close>

text \<open>
  The library returns a value together with the error: 0 with a syntax error, the nearest
  bound of the 32-bit range with a range error. \<^verbatim>\<open>ParseUint\<close> reads the digits left to
  right and returns the range error as soon as the number passes \<open>2^32 - 1\<close>, before it has
  looked at the rest of the string. (Its 64-bit overflow test cannot fire first: the
  running number never exceeds \<open>2^32 - 1\<close>.) With base 10 an underscore is a syntax error.
\<close>

datatype NumError = ErrSyntax | ErrRange

definition digit_val :: "char \<Rightarrow> int option" where
  "digit_val c = (let n = (of_char c :: int) in if 48 \<le> n \<and> n \<le> 57 then Some (n - 48) else None)"

definition maxVal32 :: int where "maxVal32 = 2 ^ 32 - 1"

fun ParseUint_loop :: "int \<Rightarrow> string \<Rightarrow> int \<times> NumError option" where
  "ParseUint_loop n [] = (n, None)"
| "ParseUint_loop n (c # cs) =
     (case digit_val c of
        None \<Rightarrow> (0, Some ErrSyntax)
      | Some d \<Rightarrow>
          if n * 10 + d > maxVal32 then (maxVal32, Some ErrRange)
          else ParseUint_loop (n * 10 + d) cs)"

definition ParseUint :: "string \<Rightarrow> int \<times> NumError option" where
  "ParseUint s = (if s = [] then (0, Some ErrSyntax) else ParseUint_loop 0 s)"

definition ParseInt :: "string \<Rightarrow> int \<times> NumError option" where
  "ParseInt s =
     (if s = [] then (0, Some ErrSyntax)
      else
        let neg = (hd s = CHR ''-'');
            s' = (if hd s = CHR ''+'' \<or> hd s = CHR ''-'' then tl s else s);
            (un, err) = ParseUint s'
        in if err = Some ErrSyntax then (0, err)
           else if \<not> neg \<and> un \<ge> 2 ^ 31 then (2 ^ 31 - 1, Some ErrRange)
           else if neg \<and> un > 2 ^ 31 then (- (2 ^ 31), Some ErrRange)
           else (if neg then - un else un, None))"

text \<open>The conversion \<^verbatim>\<open>int32(x)\<close> of an \<^verbatim>\<open>int64\<close>: the low 32 bits, read as signed.\<close>

definition int32 :: "int \<Rightarrow> int" where
  "int32 x = (x + 2 ^ 31) mod 2 ^ 32 - 2 ^ 31"


section \<open>The data model\<close>

record CPU =
  c_Id :: int
  c_Name :: string
  c_Vendor :: string
  c_CountPhysical :: int
  c_CountLogical :: int

record CPUStats =
  UsagePercent :: real

datatype FileSystemType =
  APFS | exFAT | FAT | FAT32 | EXT | EXT2 | EXT3 | EXT4 | NTFS | JFS | ZFS
  | FS_unknown  \<comment> \<open>the value \<^verbatim>\<open>-1\<close>, which is none of the declared constants\<close>

record DiskStats =
  d_Mountpoint :: string
  d_Device :: string
  d_FSType :: FileSystemType
  d_IsVirtualDisk :: bool
  d_Free :: nat
  d_Used :: nat
  d_UsedPercent :: real
  d_Total :: nat

record GPU =
  Name :: string
  Vendor :: string

record GPUStats =
  g_Id :: int
  g_Load :: real
  g_MemoryUsage :: real
  g_MemoryTotal :: real
  g_Power :: real
  g_Temperature :: int

text \<open>
  The records of the statistics library, with the fields this file reads. The library is
  not part of the repository: what it returns is an input of the model.
\<close>

record cpu_InfoStat =
  ci_ModelName :: string
  ci_VendorID :: string
  ci_Cores :: int

record PartitionStat =
  p_Device :: string
  p_Mountpoint :: string

record UsageStat =
  u_Fstype :: string
  u_Total :: nat
  u_Free :: nat
  u_Used :: nat
  u_UsedPercent :: real

record InfoStat =
  Hostname :: string
  OS :: string

record VirtualMemoryStat =
  m_Total :: nat
  m_Available :: nat
  m_Used :: nat
  m_UsedPercent :: real

record IOCountersStat =
  n_Name :: string
  n_BytesSent :: nat
  n_BytesRecv :: nat

subsection \<open>Time\<close>

text \<open>
  A \<^verbatim>\<open>time.Time\<close> is the number of nanoseconds since the zero time (the value of an
  unset \<^verbatim>\<open>time.Time\<close> variable); a \<^verbatim>\<open>time.Duration\<close> is a 64-bit count of nanoseconds,
  and \<^verbatim>\<open>Time.Sub\<close> saturates. \<^verbatim>\<open>time.Since(t)\<close> is \<open>Sub now t\<close> for the clock reading
  \<open>now\<close>, which is an argument of every accessor.
\<close>

type_synonym time = int
type_synonym Duration = int

definition maxDuration :: Duration where "maxDuration = 2 ^ 63 - 1"
definition minDuration :: Duration where "minDuration = - (2 ^ 63)"

definition Sub :: "time \<Rightarrow> time \<Rightarrow> Duration" where
  "Sub t u = (let d = t - u in
              if d > maxDuration then maxDuration
              else if d < minDuration then minDuration else d)"

definition Second :: Duration where "Second = 1000000000"
definition Minute :: Duration where "Minute = 60 * Second"

definition CPU_STATS_UPDATE_INTERVAL :: Duration where "CPU_STATS_UPDATE_INTERVAL = Second"
definition DISK_STATS_UPDATE_INTERVAL :: Duration where "DISK_STATS_UPDATE_INTERVAL = Minute"
definition GPU_STATS_UPDATE_INTERVAL :: Duration where "GPU_STATS_UPDATE_INTERVAL = Second"
definition HOST_INFO_UPDATE_INTERVAL :: Duration where "HOST_INFO_UPDATE_INTERVAL = Second"
definition MEM_STATS_UPDATE_INTERVAL :: Duration where "MEM_STATS_UPDATE_INTERVAL = Second"
definition NET_STATS_UPDATE_INTERVAL :: Duration where "NET_STATS_UPDATE_INTERVAL = Second"

subsection \<open>The package variables\<close>

text \<open>
  Every call that leaves the process (a library query of the operating system, a spawned
  tool) is recorded in \<open>calls\<close>, in order. The field is instrumentation: no function of
  the model reads it.
\<close>

datatype call =
    cpu_Info | cpu_Percent
  | disk_Partitions | disk_Usage string | disk_IOCounters string | GetDriveType string
  | exec_Run string | exec_Output string
  | host_Info | mem_VirtualMemory | net_IOCounters

record world =
  cpuInfo :: "CPU slice"
  cpuStats :: "CPUStats slice"
  disksStats :: "DiskStats slice"
  gpuInfo :: GPU
  gpuStats :: "GPUStats slice"
  hostInfo :: "InfoStat option"
  memInfo :: "VirtualMemoryStat option"
  netInfo :: "IOCountersStat slice"
  lastFetchCPU :: time
  lastFetchDisk :: time
  lastFetchGPU :: time
  lastFetchHost :: time
  lastFetchMem :: time
  lastFetchNet :: time
  hasGPU :: bool
  hostname :: string
  calls :: "call list"

text \<open>The state after package initialisation: \<^verbatim>\<open>init\<close> allocates an empty \<^verbatim>\<open>GPU\<close>.\<close>

definition init :: world where
  "init = \<lparr> cpuInfo = None, cpuStats = None, disksStats = None,
            gpuInfo = \<lparr> Name = [], Vendor = [] \<rparr>, gpuStats = None,
            hostInfo = None, memInfo = None, netInfo = None,
            lastFetchCPU = 0, lastFetchDisk = 0, lastFetchGPU = 0,
            lastFetchHost = 0, lastFetchMem = 0, lastFetchNet = 0,
            hasGPU = False, hostname = [], calls = [] \<rparr>"

definition invoke :: "call \<Rightarrow> world \<Rightarrow> world" where
  "invoke c w = w\<lparr>calls := calls w @ [c]\<rparr>"

text \<open>
  A function that reads or writes the package variables returns its result, or the panic
  that ended it, together with the variables as they are at that moment.
\<close>

type_synonym 'a result = "(panic + 'a) \<times> world"

definition and_then :: "'a result \<Rightarrow> ('a \<Rightarrow> world \<Rightarrow> 'b result) \<Rightarrow> 'b result" where
  "and_then m f = (case fst m of Inl p \<Rightarrow> (Inl p, snd m) | Inr x \<Rightarrow> f x (snd m))"

section \<open>The GPU vendor probe\<close>

text \<open>
  \<open>run tool\<close> is the outcome of \<^verbatim>\<open>exec.Command(tool).Run()\<close>: true when the error is
  nil. The second tool is only started when the first one failed.
\<close>

definition HasGPU :: "(string \<Rightarrow> bool) \<Rightarrow> world \<Rightarrow> bool \<times> world" where
  "HasGPU run w =
     (if hasGPU w then (hasGPU w, w)
      else
        let w1 = invoke (exec_Run ''nvidia-smi'') w in
        if run ''nvidia-smi''
        then (True, w1\<lparr>gpuInfo := (gpuInfo w1)\<lparr>Vendor := ''nvidia''\<rparr>, hasGPU := True\<rparr>)
        else
          let w2 = invoke (exec_Run ''rocm-smi'') w1 in
          if run ''rocm-smi''
          then (True, w2\<lparr>gpuInfo := (gpuInfo w2)\<lparr>Vendor := ''amd''\<rparr>, hasGPU := True\<rparr>)
          else (hasGPU w2, w2))"

text \<open>
  The older copy of the package has the same probe without the flag: it keeps the vendor
  in the package variable \<^verbatim>\<open>GPUVendor\<close> and starts the tools at every call. The function
  takes the variable and the invocations so far, and returns them with its result.
\<close>

definition HasGPU_earlier ::
    "(string \<Rightarrow> bool) \<Rightarrow> string \<times> call list \<Rightarrow> bool \<times> string \<times> call list" where
  "HasGPU_earlier run st =
     (let (GPUVendor, cs) = st;
          cs1 = cs @ [exec_Run ''nvidia-smi'']
      in if run ''nvidia-smi'' then (True, ''nvidia'', cs1)
         else
           let cs2 = cs1 @ [exec_Run ''rocm-smi'']
           in if run ''rocm-smi'' then (True, ''amd'', cs2) else (False, GPUVendor, cs2))"

text \<open>A sequence of calls of the probe, each with its own outcomes of the two tools.\<close>

fun HasGPU_calls :: "(string \<Rightarrow> bool) list \<Rightarrow> world \<Rightarrow> world" where
  "HasGPU_calls [] w = w"
| "HasGPU_calls (run # runs) w = HasGPU_calls runs (snd (HasGPU run w))"

section \<open>The GPU metrics pipeline\<close>

text \<open>
  \<open>pf\<close> stands for \<^verbatim>\<open>strconv.ParseFloat(s, 64)\<close>: the value it returns and whether it
  returned an error. \<open>parse_fields\<close> is the part of the loop body of
  \<^verbatim>\<open>parseGPUNvidiaStats\<close> after the name has been stored: the field accesses in the order
  of the source, each of which panics when the line has too few fields. A failed
  \<^verbatim>\<open>ParseInt\<close> or \<^verbatim>\<open>ParseFloat\<close> is logged and the value it returned is kept; the two
  memory fields are set to 0 after a failure.
\<close>

definition parse_fields :: "(string \<Rightarrow> real \<times> bool) \<Rightarrow> string list \<Rightarrow> panic + GPUStats" where
  "parse_fields pf data =
     bind (index data 0) (\<lambda>f0. let id = fst (ParseInt f0) in
     bind (index data 2) (\<lambda>f2. let load = fst (ParseInt f2) in
     bind (index data 3) (\<lambda>f3.
       let memoryUsage = (if snd (pf f3) then 0 else fst (pf f3)) in
     bind (index data 4) (\<lambda>f4.
       let memoryTotal = (if snd (pf f4) then 0 else fst (pf f4)) in
     bind (index data 5) (\<lambda>f5. let power = fst (pf f5) in
     bind (index data 6) (\<lambda>f6. let temp = fst (ParseInt (strip_CR f6)) in
       Inr \<lparr> g_Id = int32 id, g_Load = real_of_int load / 100,
             g_MemoryUsage = memoryUsage, g_MemoryTotal = memoryTotal,
             g_Power = power, g_Temperature = int32 temp \<rparr>))))))"

text \<open>
  The loop body on a non-empty line: the name goes to \<^verbatim>\<open>gpuInfo.Name\<close> and the record
  is appended to the package variable \<^verbatim>\<open>gpuStats\<close>.
\<close>

definition parse_line :: "(string \<Rightarrow> real \<times> bool) \<Rightarrow> string \<Rightarrow> world \<Rightarrow> unit result" where
  "parse_line pf line w =
     (let data = Split line '', '' in
      case index data 1 of
        Inl p \<Rightarrow> (Inl p, w)
      | Inr name \<Rightarrow>
          let w1 = w\<lparr>gpuInfo := (gpuInfo w)\<lparr>Name := name\<rparr>\<rparr> in
          (case parse_fields pf data of
             Inl p \<Rightarrow> (Inl p, w1)
           | Inr gpu \<Rightarrow> (Inr (), w1\<lparr>gpuStats := append_slice (gpuStats w1) gpu\<rparr>)))"

fun parse_lines :: "(string \<Rightarrow> real \<times> bool) \<Rightarrow> string list \<Rightarrow> world \<Rightarrow> unit result" where
  "parse_lines pf [] w = (Inr (), w)"
| "parse_lines pf (line # rest) w =
     (if line \<noteq> []
      then and_then (parse_line pf line w) (\<lambda>_. parse_lines pf rest)
      else parse_lines pf rest w)"

definition parseGPUNvidiaStats ::
    "(string \<Rightarrow> real \<times> bool) \<Rightarrow> string \<Rightarrow> world \<Rightarrow> GPUStats slice result" where
  "parseGPUNvidiaStats pf output w =
     and_then (parse_lines pf (Split output [LF]) w) (\<lambda>_ w'. (Inr (gpuStats w'), w'))"

definition nvidia_query :: string where
  "nvidia_query = ''nvidia-smi --query-gpu=index,name,utilization.gpu,memory.used,memory.total,power.draw,temperature.gpu --format=csv,noheader,nounits''"

text \<open>
  \<open>out\<close> is what \<^verbatim>\<open>cmd.Output()\<close> returns: the bytes of the standard output and the error.
  \<open>t\<close> is the clock read by \<^verbatim>\<open>time.Since\<close>, \<open>t'\<close> the clock read by \<^verbatim>\<open>time.Now\<close>.
\<close>

definition GetGPUStats ::
    "(string \<Rightarrow> real \<times> bool) \<Rightarrow> string \<times> string option \<Rightarrow> time \<Rightarrow> time \<Rightarrow> world
     \<Rightarrow> GPUStats slice result" where
  "GetGPUStats pf out t t' w =
     (if Sub t (lastFetchGPU w) < GPU_STATS_UPDATE_INTERVAL \<and> gpuStats w \<noteq> None
      then (Inr (gpuStats w), w)
      else if Vendor (gpuInfo w) = ''nvidia'' then
        (let w1 = invoke (exec_Output nvidia_query) w in
         if snd out \<noteq> None then (Inr None, w1)
         else and_then (parseGPUNvidiaStats pf (fst out) w1) (\<lambda>r w2.
                let w3 = w2\<lparr>gpuStats := r, lastFetchGPU := t'\<rparr> in (Inr (gpuStats w3), w3)))
      else if Vendor (gpuInfo w) = ''amd'' then
        (let w1 = w\<lparr>lastFetchGPU := t'\<rparr> in (Inr (gpuStats w1), w1))
      else (Inr (gpuStats w), w))"

subsection \<open>The earlier copy of the parser\<close>

text \<open>
  \<^verbatim>\<open>parseGPUNvidiaData\<close>, in the older copy of the package, has the same loop body but
  collects the records in a local slice that starts as nil at every call, and stores the
  name in the package variable \<^verbatim>\<open>gpuName\<close>. The function takes and returns that variable.
\<close>

fun parse_data_lines ::
    "(string \<Rightarrow> real \<times> bool) \<Rightarrow> string list \<Rightarrow> GPUStats slice \<Rightarrow> string
     \<Rightarrow> (panic + GPUStats slice) \<times> string" where
  "parse_data_lines pf [] gpuData gpuName = (Inr gpuData, gpuName)"
| "parse_data_lines pf (line # rest) gpuData gpuName =
     (if line \<noteq> []
      then (let data = Split line '', '' in
            case index data 1 of
              Inl p \<Rightarrow> (Inl p, gpuName)
            | Inr name \<Rightarrow>
                (case parse_fields pf data of
                   Inl p \<Rightarrow> (Inl p, name)
                 | Inr gpu \<Rightarrow> parse_data_lines pf rest (append_slice gpuData gpu) name))
      else parse_data_lines pf rest gpuData gpuName)"

definition parseGPUNvidiaData ::
    "(string \<Rightarrow> real \<times> bool) \<Rightarrow> string \<Rightarrow> string \<Rightarrow> (panic + GPUStats slice) \<times> string" where
  "parseGPUNvidiaData pf output gpuName = parse_data_lines pf (Split output [LF]) None gpuName"

section \<open>The virtual-disk classifier\<close>

text \<open>
  The platform is an input: the value of \<^verbatim>\<open>runtime.GOOS\<close>, the answer of
  \<^verbatim>\<open>windows.GetDriveType\<close> for a path pointer (nil when the conversion of the path failed),
  and the keys of the map that \<^verbatim>\<open>disk.IOCounters(path)\<close> returns (its error is discarded
  by the source). \<^verbatim>\<open>windows.UTF16PtrFromString\<close> fails exactly on a string that contains
  a NUL byte; the failure is logged and the nil pointer is passed on. Reading the map at a
  missing key gives the zero value and does not panic.
\<close>

record platform =
  GOOS :: string
  driveType :: "string option \<Rightarrow> nat"
  ioCounters :: "string \<Rightarrow> string list"

definition DRIVE_REMOVABLE :: nat where "DRIVE_REMOVABLE = 2"
definition DRIVE_FIXED :: nat where "DRIVE_FIXED = 3"
definition DRIVE_REMOTE :: nat where "DRIVE_REMOTE = 4"
definition DRIVE_CDROM :: nat where "DRIVE_CDROM = 5"
definition DRIVE_RAMDISK :: nat where "DRIVE_RAMDISK = 6"

definition UTF16PtrFromString :: "string \<Rightarrow> string option" where
  "UTF16PtrFromString s = (if CHR 0x00 \<in> set s then None else Some s)"

definition isVirtualDisk :: "platform \<Rightarrow> string \<Rightarrow> world \<Rightarrow> bool \<times> world" where
  "isVirtualDisk pl path w =
     (if GOOS pl = ''windows'' then
        (let d = UTF16PtrFromString path;
             w1 = invoke (GetDriveType path) w;
             dt = driveType pl d
         in if dt = DRIVE_RAMDISK then (True, w1)
            else if dt = DRIVE_FIXED then
              (let w2 = invoke (disk_IOCounters path) w1;
                   io = ioCounters pl path
               in if length io = 0 then (True, w2) else (False, w2))
            else (False, w1))
      else (False, w))"

section \<open>The accessors of the statistics library\<close>

text \<open>
  Every accessor takes what its library call returns in this call: the value and the
  error (\<open>None\<close> is the nil error). A pointer result is \<open>None\<close> when it is nil. The
  \<^verbatim>\<open>String\<close> methods of the library's records have value receivers, so calling one
  through a nil pointer dereferences it; on a record the text is its JSON object, which is
  never empty, so \<^verbatim>\<open>len(x.String()) > 0\<close> is true whenever it is evaluated without panic.
  In \<^verbatim>\<open>a && b\<close> the right operand is evaluated only when the left one is true.
\<close>

definition String_nonempty :: "'a option \<Rightarrow> panic + bool" where
  "String_nonempty p = (case p of None \<Rightarrow> Inl NilDereference | Some _ \<Rightarrow> Inr True)"

fun GetCPUInfo_loop :: "cpu_InfoStat list \<Rightarrow> world \<Rightarrow> world" where
  "GetCPUInfo_loop [] w = w"
| "GetCPUInfo_loop (c # cs) w =
     GetCPUInfo_loop cs
       (w\<lparr>cpuInfo := append_slice (cpuInfo w)
            \<lparr> c_Id = 0, c_Name = ci_ModelName c, c_Vendor = ci_VendorID c,
              c_CountPhysical = ci_Cores c, c_CountLogical = 0 \<rparr>\<rparr>)"

definition GetCPUInfo :: "cpu_InfoStat list \<times> string option \<Rightarrow> world \<Rightarrow> CPU slice result" where
  "GetCPUInfo res w =
     (if cpuInfo w \<noteq> None then (Inr (cpuInfo w), w)
      else let w1 = GetCPUInfo_loop (fst res) (invoke cpu_Info w) in (Inr (cpuInfo w1), w1))"

definition GetCPUStats ::
    "real list \<times> string option \<Rightarrow> time \<Rightarrow> time \<Rightarrow> world \<Rightarrow> CPUStats slice result" where
  "GetCPUStats res t t' w =
     (if len (cpuStats w) > 0 \<and> Sub t (lastFetchCPU w) < CPU_STATS_UPDATE_INTERVAL
      then (Inr (cpuStats w), w)
      else
        let w1 = (invoke cpu_Percent w)\<lparr>lastFetchCPU := t'\<rparr> in
        case index (fst res) 0 of
          Inl p \<Rightarrow> (Inl p, w1)
        | Inr pct \<Rightarrow>
            let w2 = w1\<lparr>cpuStats := append_slice (cpuStats w1) \<lparr> UsagePercent = pct \<rparr>\<rparr>
            in (Inr (cpuStats w2), w2))"

definition convertFSType :: "string \<Rightarrow> FileSystemType" where
  "convertFSType fsType =
     (if fsType = ''APFS'' then APFS
      else if fsType = ''exFAT'' then exFAT
      else if fsType = ''FAT'' then FAT
      else if fsType = ''FAT32'' then FAT32
      else if fsType = ''EXT'' then EXT
      else if fsType = ''EXT2'' then EXT2
      else if fsType = ''EXT3'' then EXT3
      else if fsType = ''EXT4'' then EXT4
      else if fsType = ''NTFS'' then NTFS
      else if fsType = ''JFS'' then JFS
      else if fsType = ''ZFS'' then ZFS
      else FS_unknown)"

text \<open>\<^verbatim>\<open>math.Round\<close>: to the nearest integer, halves away from zero.\<close>

definition Round :: "real \<Rightarrow> real" where
  "Round x = (if x < 0 then - of_int \<lfloor>- x + 1 / 2\<rfloor> else of_int \<lfloor>x + 1 / 2\<rfloor>)"

definition zero_DiskStats :: DiskStats where
  "zero_DiskStats = \<lparr> d_Mountpoint = [], d_Device = [], d_FSType = APFS,
      d_IsVirtualDisk = False, d_Free = 0, d_Used = 0, d_UsedPercent = 0, d_Total = 0 \<rparr>"

definition set_at :: "'a slice \<Rightarrow> nat \<Rightarrow> 'a \<Rightarrow> 'a slice" where
  "set_at s i x = map_option (\<lambda>xs. xs[i := x]) s"

text \<open>
  The loop of \<^verbatim>\<open>GetDisksStats\<close> from index \<open>i\<close> on; \<open>usage mp\<close> is what
  \<^verbatim>\<open>disk.Usage(mp)\<close> returns. The index is within the slice made just before.
\<close>

fun GetDisksStats_loop ::
    "platform \<Rightarrow> (string \<Rightarrow> UsageStat option \<times> string option) \<Rightarrow> nat \<Rightarrow> PartitionStat list
     \<Rightarrow> world \<Rightarrow> unit result" where
  "GetDisksStats_loop pl usage i [] w = (Inr (), w)"
| "GetDisksStats_loop pl usage i (dsk # rest) w =
     (let w1 = invoke (disk_Usage (p_Mountpoint dsk)) w in
      case fst (usage (p_Mountpoint dsk)) of
        None \<Rightarrow> (Inl NilDereference, w1)
      | Some u \<Rightarrow>
          let fsType = convertFSType (u_Fstype u);
              (isVDisk, w2) = isVirtualDisk pl (p_Mountpoint dsk) w1;
              usedPercent = Round ((u_UsedPercent u * 100) / 100) / 100;
              stats = \<lparr> d_Mountpoint = p_Mountpoint dsk, d_Device = p_Device dsk,
                        d_FSType = fsType, d_IsVirtualDisk = isVDisk, d_Free = u_Free u,
                        d_Used = u_Used u, d_UsedPercent = usedPercent, d_Total = u_Total u \<rparr>
          in GetDisksStats_loop pl usage (Suc i) rest
               (w2\<lparr>disksStats := set_at (disksStats w2) i stats\<rparr>))"

definition GetDisksStats ::
    "platform \<Rightarrow> PartitionStat list \<times> string option
     \<Rightarrow> (string \<Rightarrow> UsageStat option \<times> string option) \<Rightarrow> time \<Rightarrow> time \<Rightarrow> world
     \<Rightarrow> DiskStats slice result" where
  "GetDisksStats pl res usage t t' w =
     (if Sub t (lastFetchDisk w) < DISK_STATS_UPDATE_INTERVAL \<and> len (disksStats w) > 0
      then (Inr (disksStats w), w)
      else
        let dInfo = fst res;
            w1 = (invoke disk_Partitions w)
                   \<lparr>lastFetchDisk := t',
                    disksStats := Some (replicate (length dInfo) zero_DiskStats)\<rparr>
        in and_then (GetDisksStats_loop pl usage 0 dInfo w1)
             (\<lambda>_ w2. (Inr (disksStats w2), w2)))"

definition GetHostInfo ::
    "InfoStat option \<times> string option \<Rightarrow> time \<Rightarrow> time \<Rightarrow> world \<Rightarrow> InfoStat option result" where
  "GetHostInfo res t t' w =
     (case (if Sub t (lastFetchHost w) < HOST_INFO_UPDATE_INTERVAL
            then String_nonempty (hostInfo w) else Inr False) of
        Inl p \<Rightarrow> (Inl p, w)
      | Inr True \<Rightarrow> (Inr (hostInfo w), w)
      | Inr False \<Rightarrow>
          let w1 = (invoke host_Info w)\<lparr>lastFetchHost := t'\<rparr>;
              w2 = w1\<lparr>hostInfo := fst res\<rparr>
          in (case hostInfo w2 of
                None \<Rightarrow> (Inl NilDereference, w2)
              | Some h \<Rightarrow> let w3 = w2\<lparr>hostname := Hostname h\<rparr> in (Inr (hostInfo w3), w3)))"

definition GetMemoryStats ::
    "VirtualMemoryStat option \<times> string option \<Rightarrow> time \<Rightarrow> time \<Rightarrow> world
     \<Rightarrow> VirtualMemoryStat option result" where
  "GetMemoryStats res t t' w =
     (case (if Sub t (lastFetchMem w) < MEM_STATS_UPDATE_INTERVAL
            then String_nonempty (memInfo w) else Inr False) of
        Inl p \<Rightarrow> (Inl p, w)
      | Inr True \<Rightarrow> (Inr (memInfo w), w)
      | Inr False \<Rightarrow>
          let mInfo = fst res;
              w1 = (invoke mem_VirtualMemory w)\<lparr>lastFetchMem := t'\<rparr>
          in (case memInfo w1 of
                None \<Rightarrow> (let w2 = w1\<lparr>memInfo := mInfo\<rparr> in (Inr (memInfo w2), w2))
              | Some old \<Rightarrow>
                  (case mInfo of
                     None \<Rightarrow> (Inl NilDereference, w1)
                   | Some new \<Rightarrow>
                       if m_UsedPercent old = m_UsedPercent new
                       then (Inr (memInfo w1), w1)
                       else let w2 = w1\<lparr>memInfo := mInfo\<rparr> in (Inr (memInfo w2), w2))))"

definition GetNetworkStats ::
    "IOCountersStat slice \<times> string option \<Rightarrow> time \<Rightarrow> time \<Rightarrow> world
     \<Rightarrow> IOCountersStat slice result" where
  "GetNetworkStats res t t' w =
     (if Sub t (lastFetchNet w) < NET_STATS_UPDATE_INTERVAL \<and> len (netInfo w) > 0
      then (Inr (netInfo w), w)
      else
        let w1 = (invoke net_IOCounters w)\<lparr>lastFetchNet := t'\<rparr>;
            w2 = w1\<lparr>netInfo := fst res\<rparr>
        in (Inr (netInfo w2), w2))"


section \<open>A reader of plain decimal literals\<close>

text \<open>
  One instance of the float parser, used where a concrete one is needed: an unsigned
  decimal literal, digits with an optional fraction, is read as the number it denotes;
  everything else is reported as an error with the value 0.
\<close>

fun digits_val :: "int \<Rightarrow> string \<Rightarrow> int option" where
  "digits_val n [] = Some n"
| "digits_val n (c # cs) =
     (case digit_val c of None \<Rightarrow> None | Some d \<Rightarrow> digits_val (n * 10 + d) cs)"

definition ParseFloat_plain :: "string \<Rightarrow> real \<times> bool" where
  "ParseFloat_plain s =
     (case Split s ''.'' of
        [a] \<Rightarrow> (case digits_val 0 a of
                  Some n \<Rightarrow> if a = [] then (0, True) else (of_int n, False)
                | None \<Rightarrow> (0, True))
      | [a, b] \<Rightarrow> (case (digits_val 0 a, digits_val 0 b) of
                     (Some n, Some m) \<Rightarrow>
                       if a = [] \<and> b = [] then (0, True)
                       else (of_int n + of_int m / 10 ^ length b, False)
                   | _ \<Rightarrow> (0, True))
      | _ \<Rightarrow> (0, True))"


text \<open>
  The value a text field contributes to a record, in the words of the specification: the
  parsed number when the field parses, and a default when it does not: 0 for a field that
  is not a number, the nearest bound of the 32-bit range for a number outside it.
\<close>

definition int_or_default :: "string \<Rightarrow> int" where
  "int_or_default s =
     (case snd (ParseInt s) of
        None \<Rightarrow> fst (ParseInt s)
      | Some ErrSyntax \<Rightarrow> 0
      | Some ErrRange \<Rightarrow> if hd s = CHR ''-'' then - (2 ^ 31) else 2 ^ 31 - 1)"

definition float_or_zero :: "(string \<Rightarrow> real \<times> bool) \<Rightarrow> string \<Rightarrow> real" where
  "float_or_zero pf s = (if snd (pf s) then 0 else fst (pf s))"


text \<open>The record of the sample line of the specification.\<close>

definition rtx3080 :: GPUStats where
  "rtx3080 = \<lparr> g_Id = 0, g_Load = 0.42, g_MemoryUsage = 1024, g_MemoryTotal = 10240,
                g_Power = 215.50, g_Temperature = 65 \<rparr>"

text \<open>The state after a probe that found the NVIDIA tool.\<close>

definition nvidia_present :: "string \<Rightarrow> bool" where
  "nvidia_present tool = (tool = ''nvidia-smi'')"

definition no_tools :: "string \<Rightarrow> bool" where
  "no_tools tool = False"

definition found_nvidia :: world where
  "found_nvidia = snd (HasGPU nvidia_present init)"

text \<open>A state in which every family has a cached value, fetched ten seconds after the zero time.\<close>

definition card0 :: GPUStats where
  "card0 = \<lparr> g_Id = 0, g_Load = 0.01, g_MemoryUsage = 2, g_MemoryTotal = 3,
              g_Power = 4, g_Temperature = 5 \<rparr>"

definition mem_half :: VirtualMemoryStat where
  "mem_half = \<lparr> m_Total = 16, m_Available = 8, m_Used = 8, m_UsedPercent = 50 \<rparr>"

definition warm :: world where
  "warm = \<lparr> cpuInfo = None, cpuStats = Some [\<lparr> UsagePercent = 12 \<rparr>],
            disksStats = Some [zero_DiskStats],
            gpuInfo = \<lparr> Name = ''A'', Vendor = ''nvidia'' \<rparr>, gpuStats = Some [card0],
            hostInfo = Some \<lparr> Hostname = ''box'', OS = ''linux'' \<rparr>,
            memInfo = Some mem_half,
            netInfo = Some [\<lparr> n_Name = ''all'', n_BytesSent = 1, n_BytesRecv = 2 \<rparr>],
            lastFetchCPU = 10 * Second, lastFetchDisk = 10 * Second,
            lastFetchGPU = 10 * Second, lastFetchHost = 10 * Second,
            lastFetchMem = 10 * Second, lastFetchNet = 10 * Second,
            hasGPU = True, hostname = ''box'', calls = [] \<rparr>"

definition linux :: platform where
  "linux = \<lparr> GOOS = ''linux'', driveType = (\<lambda>_. 0), ioCounters = (\<lambda>_. []) \<rparr>"

definition usage_fails :: "string \<Rightarrow> UsageStat option \<times> string option" where
  "usage_fails mp = (None, Some ''no such device'')"

section \<open>Facts about the integer parser\<close>

lemma ParseUint_loop_range:
  "0 \<le> n \<Longrightarrow> n \<le> maxVal32 \<Longrightarrow> 0 \<le> fst (ParseUint_loop n s) \<and> fst (ParseUint_loop n s) \<le> maxVal32"
proof (induction s arbitrary: n)
  case Nil
  then show ?case by simp
next
  case (Cons c cs)
  show ?case
  proof (cases "digit_val c")
    case None
    then show ?thesis by (simp add: maxVal32_def)
  next
    case (Some d)
    then have d: "0 \<le> d" by (auto simp: digit_val_def Let_def split: if_splits)
    show ?thesis
    proof (cases "n * 10 + d > maxVal32")
      case True
      with Some show ?thesis by (simp add: maxVal32_def)
    next
      case False
      have "0 \<le> n * 10 + d" using Cons.prems d by simp
      with False Some Cons.IH[of "n * 10 + d"] show ?thesis by simp
    qed
  qed
qed

lemma ParseUint_loop_range_err:
  "snd (ParseUint_loop n s) = Some ErrRange \<Longrightarrow> fst (ParseUint_loop n s) = maxVal32"
  by (induction s arbitrary: n) (auto split: option.splits if_splits)

lemma ParseUint_loop_syntax_err:
  "snd (ParseUint_loop n s) = Some ErrSyntax \<Longrightarrow> fst (ParseUint_loop n s) = 0"
  by (induction s arbitrary: n) (auto split: option.splits if_splits)

lemma ParseUint_range: "0 \<le> fst (ParseUint s) \<and> fst (ParseUint s) \<le> maxVal32"
  using ParseUint_loop_range[of 0 s] by (simp add: ParseUint_def maxVal32_def)

lemma ParseInt_int32_range: "- (2 ^ 31) \<le> fst (ParseInt s) \<and> fst (ParseInt s) < 2 ^ 31"
  using ParseUint_range[of "if hd s = CHR ''+'' \<or> hd s = CHR ''-'' then tl s else s"]
  by (auto simp: ParseInt_def Let_def split: prod.splits if_splits)

lemma int32_id: "- (2 ^ 31) \<le> x \<Longrightarrow> x < 2 ^ 31 \<Longrightarrow> int32 x = x"
  by (simp add: int32_def)

lemma int32_ParseInt: "int32 (fst (ParseInt s)) = fst (ParseInt s)"
  using ParseInt_int32_range[of s] by (simp add: int32_id)

lemma ParseInt_syntax_zero: "snd (ParseInt s) = Some ErrSyntax \<Longrightarrow> fst (ParseInt s) = 0"
  by (auto simp: ParseInt_def Let_def split: prod.splits if_splits)

lemma ParseInt_range_bound:
  "snd (ParseInt s) = Some ErrRange \<Longrightarrow> fst (ParseInt s) = (if hd s = CHR ''-'' then - (2 ^ 31) else 2 ^ 31 - 1)"
  by (auto simp: ParseInt_def Let_def split: prod.splits if_splits)

section \<open>Facts about the line parser\<close>

lemma int_or_default_eq: "int_or_default s = fst (ParseInt s)"
  using ParseInt_syntax_zero[of s] ParseInt_range_bound[of s]
  by (simp add: int_or_default_def split: option.splits NumError.splits)

lemma Split_go_nonempty: "Split_go sep acc s \<noteq> []"
  by (induction sep acc s rule: Split_go.induct) auto

lemma Split_Nil: "Split [] sep = [[]]"
  by (simp add: Split_def)

lemma parse_fields_seven:
  "parse_fields pf [f0, f1, f2, f3, f4, f5, f6] =
     Inr \<lparr> g_Id = int_or_default f0, g_Load = real_of_int (int_or_default f2) / 100,
           g_MemoryUsage = float_or_zero pf f3, g_MemoryTotal = float_or_zero pf f4,
           g_Power = fst (pf f5), g_Temperature = int_or_default (strip_CR f6) \<rparr>"
  by (simp add: parse_fields_def bind_def index_def int_or_default_eq int32_ParseInt
      float_or_zero_def)

lemma parse_line_seven:
  assumes "Split line '', '' = [f0, f1, f2, f3, f4, f5, f6]"
  shows "parse_line pf line w =
     (Inr (), w\<lparr>gpuInfo := (gpuInfo w)\<lparr>Name := f1\<rparr>,
               gpuStats := append_slice (gpuStats w)
                 \<lparr> g_Id = int_or_default f0, g_Load = real_of_int (int_or_default f2) / 100,
                   g_MemoryUsage = float_or_zero pf f3, g_MemoryTotal = float_or_zero pf f4,
                   g_Power = fst (pf f5), g_Temperature = int_or_default (strip_CR f6) \<rparr>\<rparr>)"
  unfolding parse_line_def Let_def assms parse_fields_seven
  by (simp add: index_def)

lemma parse_lines_single:
  "line \<noteq> [] \<Longrightarrow> parse_lines pf [line] w = parse_line pf line w"
  by (cases "parse_line pf line w") (auto simp: and_then_def split: sum.splits)

lemma index_short: "length xs \<le> i \<Longrightarrow> index xs i = Inl IndexOutOfRange"
  by (simp add: index_def)

lemma parse_fields_short:
  "length data < 7 \<Longrightarrow> parse_fields pf data = Inl IndexOutOfRange"
  by (auto simp: parse_fields_def bind_def index_def Let_def)

lemma parse_line_short:
  "length (Split line '', '') < 7 \<Longrightarrow> fst (parse_line pf line w) = Inl IndexOutOfRange"
  by (auto simp: parse_line_def Let_def parse_fields_short index_def split: sum.splits)

lemma parse_line_ok_appends:
  "parse_line pf line w = (Inr (), w') \<Longrightarrow>
     \<exists>g. elems (gpuStats w') = elems (gpuStats w) @ [g] \<and> calls w' = calls w"
  by (auto simp: parse_line_def Let_def elems_def append_slice_def
      split: sum.splits option.splits)

lemma parse_lines_ok_appends:
  "parse_lines pf ls w = (Inr (), w') \<Longrightarrow>
     \<exists>new. elems (gpuStats w') = elems (gpuStats w) @ new
           \<and> length new = length (filter (\<lambda>l. l \<noteq> []) ls)"
proof (induction ls arbitrary: w)
  case Nil
  then show ?case by simp
next
  case (Cons line rest)
  show ?case
  proof (cases "line = []")
    case True
    with Cons show ?thesis by simp
  next
    case False
    obtain r w1 where pl: "parse_line pf line w = (r, w1)" by (cases "parse_line pf line w")
    with False Cons.prems have r: "r = Inr ()" and rest: "parse_lines pf rest w1 = (Inr (), w')"
      by (auto simp: and_then_def split: sum.splits)
    from pl r parse_line_ok_appends obtain g where
      g: "elems (gpuStats w1) = elems (gpuStats w) @ [g]" by blast
    from Cons.IH[OF rest] obtain new where
      "elems (gpuStats w') = elems (gpuStats w1) @ new"
      "length new = length (filter (\<lambda>l. l \<noteq> []) rest)" by blast
    with g False have "elems (gpuStats w') = elems (gpuStats w) @ (g # new)
        \<and> length (g # new) = length (filter (\<lambda>l. l \<noteq> []) (line # rest))" by simp
    then show ?thesis by blast
  qed
qed

lemma parseGPUNvidiaStats_keeps_old:
  assumes "fst (parseGPUNvidiaStats pf output w) = Inr r"
  shows "\<exists>new. elems r = elems (gpuStats w) @ new
           \<and> length new = length (filter (\<lambda>l. l \<noteq> []) (Split output [LF]))"
proof -
  obtain x w1 where pl: "parse_lines pf (Split output [LF]) w = (x, w1)"
    by (cases "parse_lines pf (Split output [LF]) w")
  with assms have "x = Inr ()" and "r = gpuStats w1"
    by (auto simp: parseGPUNvidiaStats_def and_then_def split: sum.splits)
  with pl parse_lines_ok_appends[of pf "Split output [LF]" w w1] show ?thesis by simp
qed

lemma parse_data_lines_count:
  "fst (parse_data_lines pf ls acc nm) = Inr r \<Longrightarrow>
     \<exists>new. elems r = elems acc @ new \<and> length new = length (filter (\<lambda>l. l \<noteq> []) ls)"
proof (induction ls arbitrary: acc nm)
  case Nil
  then show ?case by simp
next
  case (Cons line rest)
  show ?case
  proof (cases "line = []")
    case True
    with Cons show ?thesis by simp
  next
    case False
    with Cons.prems obtain name gpu where
      "fst (parse_data_lines pf rest (append_slice acc gpu) name) = Inr r"
      by (auto simp: Let_def split: sum.splits)
    from Cons.IH[OF this] obtain new where
      "elems r = elems (append_slice acc gpu) @ new"
      "length new = length (filter (\<lambda>l. l \<noteq> []) rest)" by blast
    with False have "elems r = elems acc @ (gpu # new)
        \<and> length (gpu # new) = length (filter (\<lambda>l. l \<noteq> []) (line # rest))"
      by (simp add: elems_def append_slice_def split: option.splits)
    then show ?thesis by blast
  qed
qed

lemma parseGPUNvidiaData_one_per_line:
  "fst (parseGPUNvidiaData pf output nm) = Inr r \<Longrightarrow>
     length (elems r) = length (filter (\<lambda>l. l \<noteq> []) (Split output [LF]))"
  using parse_data_lines_count[of pf "Split output [LF]" None nm r]
  by (auto simp: parseGPUNvidiaData_def elems_def)

section \<open>The sample inputs\<close>

lemma sample_line_fields:
  "Split (''0, NVIDIA GeForce RTX 3080, 42, 1024, 10240, 215.50, 65'' @ [CR]) '', ''
     = [''0'', ''NVIDIA GeForce RTX 3080'', ''42'', ''1024'', ''10240'', ''215.50'', ''65'' @ [CR]]"
  by (simp add: Split_def CR_def)

lemma sample_line_lines:
  "Split (''0, NVIDIA GeForce RTX 3080, 42, 1024, 10240, 215.50, 65'' @ [CR]) [LF]
     = [''0, NVIDIA GeForce RTX 3080, 42, 1024, 10240, 215.50, 65'' @ [CR]]"
  by (simp add: Split_def CR_def LF_def)

lemma sample_ints:
  "int_or_default ''0'' = 0" "int_or_default ''42'' = 42"
  "int_or_default (strip_CR (''65'' @ [CR])) = 65"
  "int_or_default (strip_CR [CHR ''6'', CHR ''5'', CR]) = 65"
  by (simp_all add: int_or_default_eq ParseInt_def ParseUint_def digit_val_def maxVal32_def
      strip_CR_def CR_def)

lemma sample_floats:
  "ParseFloat_plain ''1024'' = (1024, False)" "ParseFloat_plain ''10240'' = (10240, False)"
  "ParseFloat_plain ''215.50'' = (215.5, False)"
  by (simp_all add: ParseFloat_plain_def Split_def digit_val_def)

lemma found_nvidia_eq:
  "found_nvidia = init\<lparr>gpuInfo := \<lparr>Name = [], Vendor = ''nvidia''\<rparr>, hasGPU := True,
                        calls := [exec_Run ''nvidia-smi'']\<rparr>"
  by (simp add: found_nvidia_def HasGPU_def init_def invoke_def nvidia_present_def)

lemma one_card_fields:
  "Split ''0, A, 1, 2, 3, 4, 5'' '', '' = [''0'', ''A'', ''1'', ''2'', ''3'', ''4'', ''5'']"
  by (simp add: Split_def)

lemma one_card_lines:
  "Split (''0, A, 1, 2, 3, 4, 5'' @ [LF]) [LF] = [''0, A, 1, 2, 3, 4, 5'', []]"
  by (simp add: Split_def LF_def)

lemma one_card_parse:
  "parseGPUNvidiaStats ParseFloat_plain (''0, A, 1, 2, 3, 4, 5'' @ [LF]) w =
     (Inr (append_slice (gpuStats w)
             \<lparr> g_Id = 0, g_Load = 0.01, g_MemoryUsage = 2, g_MemoryTotal = 3,
               g_Power = 4, g_Temperature = 5 \<rparr>),
      w\<lparr>gpuInfo := (gpuInfo w)\<lparr>Name := ''A''\<rparr>,
        gpuStats := append_slice (gpuStats w)
             \<lparr> g_Id = 0, g_Load = 0.01, g_MemoryUsage = 2, g_MemoryTotal = 3,
               g_Power = 4, g_Temperature = 5 \<rparr>\<rparr>)"
  unfolding parseGPUNvidiaStats_def one_card_lines
  by (simp add: parse_line_seven[OF one_card_fields] and_then_def int_or_default_eq
      ParseInt_def ParseUint_def digit_val_def maxVal32_def strip_CR_def CR_def
      float_or_zero_def ParseFloat_plain_def Split_def)

section \<open>Facts about the vendor probe\<close>

lemma HasGPU_memo: "hasGPU w \<Longrightarrow> HasGPU run w = (True, w)"
  by (simp add: HasGPU_def)

lemma HasGPU_true_sets: "fst (HasGPU run w) \<Longrightarrow> hasGPU (snd (HasGPU run w))"
  by (auto simp: HasGPU_def Let_def invoke_def split: if_splits)

lemma HasGPU_calls_memo: "hasGPU w \<Longrightarrow> HasGPU_calls runs w = w"
  by (induction runs) (simp_all add: HasGPU_memo)

lemma HasGPU_false:
  "\<not> fst (HasGPU run w) \<Longrightarrow>
     snd (HasGPU run w) = w\<lparr>calls := calls w @ [exec_Run ''nvidia-smi'', exec_Run ''rocm-smi'']\<rparr>"
  by (auto simp: HasGPU_def Let_def invoke_def split: if_splits)

lemma HasGPU_probes:
  "\<not> hasGPU w \<Longrightarrow>
     \<exists>rest. calls (snd (HasGPU run w)) = calls w @ exec_Run ''nvidia-smi'' # rest"
  by (auto simp: HasGPU_def Let_def invoke_def)

section \<open>Facts about the accessors\<close>

lemma parse_line_calls: "calls (snd (parse_line pf line w)) = calls w"
  by (simp add: parse_line_def Let_def split: sum.splits)

lemma parse_lines_calls: "calls (snd (parse_lines pf ls w)) = calls w"
proof (induction ls arbitrary: w)
  case Nil
  then show ?case by simp
next
  case (Cons line rest)
  show ?case
  proof (cases "line = []")
    case True
    with Cons show ?thesis by simp
  next
    case False
    show ?thesis
    proof (cases "fst (parse_line pf line w)")
      case (Inl p)
      with False show ?thesis by (simp add: and_then_def parse_line_calls)
    next
      case (Inr u)
      with False Cons.IH[of "snd (parse_line pf line w)"] show ?thesis
        by (simp add: and_then_def parse_line_calls)
    qed
  qed
qed

lemma parseGPUNvidiaStats_calls: "calls (snd (parseGPUNvidiaStats pf output w)) = calls w"
  by (simp add: parseGPUNvidiaStats_def and_then_def parse_lines_calls split: sum.splits)

lemma isVirtualDisk_calls: "\<exists>rest. calls (snd (isVirtualDisk pl path w)) = calls w @ rest"
  by (simp add: isVirtualDisk_def Let_def invoke_def)

lemma GetDisksStats_loop_calls:
  "\<exists>rest. calls (snd (GetDisksStats_loop pl usage i ds w)) = calls w @ rest"
proof (induction ds arbitrary: w i)
  case Nil
  then show ?case by simp
next
  case (Cons dsk rest)
  show ?case
  proof (cases "fst (usage (p_Mountpoint dsk))")
    case None
    then show ?thesis by (simp add: Let_def invoke_def)
  next
    case (Some u)
    let ?w1 = "invoke (disk_Usage (p_Mountpoint dsk)) w"
    obtain b w2 where iv: "isVirtualDisk pl (p_Mountpoint dsk) ?w1 = (b, w2)"
      by (cases "isVirtualDisk pl (p_Mountpoint dsk) ?w1")
    from isVirtualDisk_calls[of pl "p_Mountpoint dsk" ?w1] iv
    obtain r1 where r1: "calls w2 = calls ?w1 @ r1" by auto
    let ?stats = "\<lparr> d_Mountpoint = p_Mountpoint dsk, d_Device = p_Device dsk,
                        d_FSType = convertFSType (u_Fstype u), d_IsVirtualDisk = b, d_Free = u_Free u,
                        d_Used = u_Used u, d_UsedPercent = Round ((u_UsedPercent u * 100) / 100) / 100,
                        d_Total = u_Total u \<rparr>"
    let ?w3 = "w2\<lparr>disksStats := set_at (disksStats w2) i ?stats\<rparr>"
    from Cons.IH[of "Suc i" ?w3] obtain r2 where
      "calls (snd (GetDisksStats_loop pl usage (Suc i) rest ?w3)) = calls ?w3 @ r2" by blast
    with r1 Some iv show ?thesis by (simp add: Let_def invoke_def)
  qed
qed

lemma GetCPUStats_hit:
  "0 < len (cpuStats w) \<and> Sub t (lastFetchCPU w) < CPU_STATS_UPDATE_INTERVAL \<Longrightarrow>
     GetCPUStats res t t' w = (Inr (cpuStats w), w)"
  by (simp add: GetCPUStats_def)

lemma GetCPUStats_miss:
  "\<not> (0 < len (cpuStats w) \<and> Sub t (lastFetchCPU w) < CPU_STATS_UPDATE_INTERVAL) \<Longrightarrow>
     calls (snd (GetCPUStats res t t' w)) = calls w @ [cpu_Percent]"
  by (auto simp: GetCPUStats_def Let_def invoke_def split: sum.splits)

lemma GetDisksStats_hit:
  "0 < len (disksStats w) \<and> Sub t (lastFetchDisk w) < DISK_STATS_UPDATE_INTERVAL \<Longrightarrow>
     GetDisksStats pl res usage t t' w = (Inr (disksStats w), w)"
  by (simp add: GetDisksStats_def)

lemma GetDisksStats_miss:
  assumes "\<not> (0 < len (disksStats w) \<and> Sub t (lastFetchDisk w) < DISK_STATS_UPDATE_INTERVAL)"
  shows "\<exists>rest. calls (snd (GetDisksStats pl res usage t t' w)) = calls w @ disk_Partitions # rest"
proof -
  let ?w1 = "(invoke disk_Partitions w)
               \<lparr>lastFetchDisk := t',
                disksStats := Some (replicate (length (fst res)) zero_DiskStats)\<rparr>"
  obtain rest where "calls (snd (GetDisksStats_loop pl usage 0 (fst res) ?w1)) = calls ?w1 @ rest"
    using GetDisksStats_loop_calls by blast
  then have "calls (snd (GetDisksStats pl res usage t t' w)) = calls w @ disk_Partitions # rest"
    using assms by (auto simp: GetDisksStats_def Let_def and_then_def invoke_def split: sum.splits)
  then show ?thesis by blast
qed

lemma GetNetworkStats_hit:
  "0 < len (netInfo w) \<and> Sub t (lastFetchNet w) < NET_STATS_UPDATE_INTERVAL \<Longrightarrow>
     GetNetworkStats res t t' w = (Inr (netInfo w), w)"
  by (simp add: GetNetworkStats_def)

lemma GetNetworkStats_miss:
  "\<not> (0 < len (netInfo w) \<and> Sub t (lastFetchNet w) < NET_STATS_UPDATE_INTERVAL) \<Longrightarrow>
     GetNetworkStats res t t' w =
       (Inr (fst res), (invoke net_IOCounters w)\<lparr>lastFetchNet := t', netInfo := fst res\<rparr>)"
  by (auto simp: GetNetworkStats_def Let_def)

lemma GetHostInfo_hit:
  "hostInfo w \<noteq> None \<and> Sub t (lastFetchHost w) < HOST_INFO_UPDATE_INTERVAL \<Longrightarrow>
     GetHostInfo res t t' w = (Inr (hostInfo w), w)"
  by (auto simp: GetHostInfo_def String_nonempty_def)

lemma GetHostInfo_miss:
  "\<not> Sub t (lastFetchHost w) < HOST_INFO_UPDATE_INTERVAL \<Longrightarrow>
     calls (snd (GetHostInfo res t t' w)) = calls w @ [host_Info]"
  by (auto simp: GetHostInfo_def Let_def invoke_def split: option.splits)

lemma GetMemoryStats_hit:
  "memInfo w \<noteq> None \<and> Sub t (lastFetchMem w) < MEM_STATS_UPDATE_INTERVAL \<Longrightarrow>
     GetMemoryStats res t t' w = (Inr (memInfo w), w)"
  by (auto simp: GetMemoryStats_def String_nonempty_def)

lemma GetMemoryStats_miss:
  "\<not> Sub t (lastFetchMem w) < MEM_STATS_UPDATE_INTERVAL \<Longrightarrow>
     calls (snd (GetMemoryStats res t t' w)) = calls w @ [mem_VirtualMemory]"
  by (auto simp: GetMemoryStats_def Let_def invoke_def split: option.splits)

lemma GetGPUStats_hit:
  "gpuStats w \<noteq> None \<and> Sub t (lastFetchGPU w) < GPU_STATS_UPDATE_INTERVAL \<Longrightarrow>
     GetGPUStats pf out t t' w = (Inr (gpuStats w), w)"
  by (simp add: GetGPUStats_def)

lemma GetGPUStats_miss_nvidia:
  assumes "\<not> (gpuStats w \<noteq> None \<and> Sub t (lastFetchGPU w) < GPU_STATS_UPDATE_INTERVAL)"
    and "Vendor (gpuInfo w) = ''nvidia''"
  shows "calls (snd (GetGPUStats pf out t t' w)) = calls w @ [exec_Output nvidia_query]"
proof -
  let ?w1 = "invoke (exec_Output nvidia_query) w"
  have "calls (snd (parseGPUNvidiaStats pf (fst out) ?w1)) = calls w @ [exec_Output nvidia_query]"
    by (simp add: parseGPUNvidiaStats_calls invoke_def)
  with assms show ?thesis
    by (auto simp: GetGPUStats_def Let_def and_then_def invoke_def split: sum.splits)
qed

lemma GetGPUStats_miss_other:
  "Vendor (gpuInfo w) \<noteq> ''nvidia'' \<Longrightarrow> calls (snd (GetGPUStats pf out t t' w)) = calls w"
  by (simp add: GetGPUStats_def Let_def)

lemma GetGPUStats_failure:
  assumes "\<not> (gpuStats w \<noteq> None \<and> Sub t (lastFetchGPU w) < GPU_STATS_UPDATE_INTERVAL)"
    and "Vendor (gpuInfo w) = ''nvidia''" and "snd out \<noteq> None"
  shows "GetGPUStats pf out t t' w = (Inr None, invoke (exec_Output nvidia_query) w)"
  using assms by (auto simp: GetGPUStats_def Let_def)

lemma GetCPUInfo_nothing:
  "cpuInfo w = None \<Longrightarrow> fst res = [] \<Longrightarrow> GetCPUInfo res w = (Inr None, invoke cpu_Info w)"
  by (simp add: GetCPUInfo_def Let_def invoke_def)

section \<open>The clock at the sample times\<close>

lemma Sub_early: "Sub (10 * Second + 1) (10 * Second) < Second"
  "Sub (10 * Second + 1) (10 * Second) < Minute"
  by (simp_all add: Sub_def Second_def Minute_def maxDuration_def minDuration_def)

lemma Sub_late: "\<not> Sub (120 * Second) (10 * Second) < Second"
  "\<not> Sub (120 * Second) (10 * Second) < Minute"
  "\<not> Sub (120 * Second) 0 < Second" "\<not> Sub (120 * Second) 0 < Minute"
  by (simp_all add: Sub_def Second_def Minute_def maxDuration_def minDuration_def)

lemmas intervals =
  CPU_STATS_UPDATE_INTERVAL_def DISK_STATS_UPDATE_INTERVAL_def GPU_STATS_UPDATE_INTERVAL_def
  HOST_INFO_UPDATE_INTERVAL_def MEM_STATS_UPDATE_INTERVAL_def NET_STATS_UPDATE_INTERVAL_def

section \<open>The vendor state under the accessors\<close>

lemma HasGPU_earlier_probes:
  "\<exists>rest. snd (snd (HasGPU_earlier run (v, cs))) = cs @ exec_Run ''nvidia-smi'' # rest"
  by (simp add: HasGPU_earlier_def Let_def)

lemma parse_line_vendor:
  "Vendor (gpuInfo (snd (parse_line pf line w))) = Vendor (gpuInfo w)
   \<and> hasGPU (snd (parse_line pf line w)) = hasGPU w"
  by (simp add: parse_line_def Let_def split: sum.splits)

lemma parse_lines_vendor:
  "Vendor (gpuInfo (snd (parse_lines pf ls w))) = Vendor (gpuInfo w)
   \<and> hasGPU (snd (parse_lines pf ls w)) = hasGPU w"
proof (induction ls arbitrary: w)
  case Nil
  then show ?case by simp
next
  case (Cons line rest)
  show ?case
  proof (cases "line = []")
    case True
    with Cons show ?thesis by simp
  next
    case False
    show ?thesis
    proof (cases "fst (parse_line pf line w)")
      case (Inl p)
      with False show ?thesis by (simp add: and_then_def parse_line_vendor)
    next
      case (Inr u)
      with False Cons.IH[of "snd (parse_line pf line w)"] show ?thesis
        by (simp add: and_then_def parse_line_vendor)
    qed
  qed
qed

lemma GetGPUStats_vendor:
  "Vendor (gpuInfo (snd (GetGPUStats pf out t t' w))) = Vendor (gpuInfo w)
   \<and> hasGPU (snd (GetGPUStats pf out t t' w)) = hasGPU w"
proof -
  let ?w1 = "invoke (exec_Output nvidia_query) w"
  have "Vendor (gpuInfo (snd (parseGPUNvidiaStats pf (fst out) ?w1))) = Vendor (gpuInfo w)
        \<and> hasGPU (snd (parseGPUNvidiaStats pf (fst out) ?w1)) = hasGPU w"
    using parse_lines_vendor[of pf "Split (fst out) [LF]" ?w1]
    by (simp add: parseGPUNvidiaStats_def and_then_def invoke_def split: sum.splits)
  then show ?thesis
    by (auto simp: GetGPUStats_def Let_def and_then_def invoke_def split: sum.splits)
qed

lemma isVirtualDisk_vendor:
  "gpuInfo (snd (isVirtualDisk pl path w)) = gpuInfo w
   \<and> hasGPU (snd (isVirtualDisk pl path w)) = hasGPU w"
  by (simp add: isVirtualDisk_def Let_def invoke_def)

lemma GetDisksStats_loop_vendor:
  "gpuInfo (snd (GetDisksStats_loop pl usage i ds w)) = gpuInfo w
   \<and> hasGPU (snd (GetDisksStats_loop pl usage i ds w)) = hasGPU w"
proof (induction ds arbitrary: w i)
  case Nil
  then show ?case by simp
next
  case (Cons dsk rest)
  show ?case
  proof (cases "fst (usage (p_Mountpoint dsk))")
    case None
    then show ?thesis by (simp add: Let_def invoke_def)
  next
    case (Some u)
    let ?w1 = "invoke (disk_Usage (p_Mountpoint dsk)) w"
    obtain b w2 where iv: "isVirtualDisk pl (p_Mountpoint dsk) ?w1 = (b, w2)"
      by (cases "isVirtualDisk pl (p_Mountpoint dsk) ?w1")
    from isVirtualDisk_vendor[of pl "p_Mountpoint dsk" ?w1] iv
    have k: "gpuInfo w2 = gpuInfo w \<and> hasGPU w2 = hasGPU w" by (simp add: invoke_def)
    let ?stats = "\<lparr> d_Mountpoint = p_Mountpoint dsk, d_Device = p_Device dsk,
                        d_FSType = convertFSType (u_Fstype u), d_IsVirtualDisk = b, d_Free = u_Free u,
                        d_Used = u_Used u, d_UsedPercent = Round ((u_UsedPercent u * 100) / 100) / 100,
                        d_Total = u_Total u \<rparr>"
    let ?w3 = "w2\<lparr>disksStats := set_at (disksStats w2) i ?stats\<rparr>"
    from Cons.IH[of "Suc i" ?w3] k Some iv show ?thesis by (simp add: Let_def)
  qed
qed

lemma GetCPUInfo_loop_vendor:
  "gpuInfo (GetCPUInfo_loop cs w) = gpuInfo w \<and> hasGPU (GetCPUInfo_loop cs w) = hasGPU w"
  by (induction cs arbitrary: w) simp_all

lemma accessors_keep_vendor:
  "gpuInfo (snd (GetCPUInfo ri w)) = gpuInfo w \<and> hasGPU (snd (GetCPUInfo ri w)) = hasGPU w"
  "gpuInfo (snd (GetCPUStats rc t t' w)) = gpuInfo w \<and> hasGPU (snd (GetCPUStats rc t t' w)) = hasGPU w"
  "gpuInfo (snd (GetDisksStats pl rd usage t t' w)) = gpuInfo w
     \<and> hasGPU (snd (GetDisksStats pl rd usage t t' w)) = hasGPU w"
  "gpuInfo (snd (GetHostInfo rh t t' w)) = gpuInfo w \<and> hasGPU (snd (GetHostInfo rh t t' w)) = hasGPU w"
  "gpuInfo (snd (GetMemoryStats rm t t' w)) = gpuInfo w
     \<and> hasGPU (snd (GetMemoryStats rm t t' w)) = hasGPU w"
  "gpuInfo (snd (GetNetworkStats rn t t' w)) = gpuInfo w
     \<and> hasGPU (snd (GetNetworkStats rn t t' w)) = hasGPU w"
proof -
  show "gpuInfo (snd (GetCPUInfo ri w)) = gpuInfo w \<and> hasGPU (snd (GetCPUInfo ri w)) = hasGPU w"
    by (simp add: GetCPUInfo_def Let_def GetCPUInfo_loop_vendor invoke_def)
  show "gpuInfo (snd (GetCPUStats rc t t' w)) = gpuInfo w
        \<and> hasGPU (snd (GetCPUStats rc t t' w)) = hasGPU w"
    by (simp add: GetCPUStats_def Let_def invoke_def split: sum.splits)
  show "gpuInfo (snd (GetDisksStats pl rd usage t t' w)) = gpuInfo w
     \<and> hasGPU (snd (GetDisksStats pl rd usage t t' w)) = hasGPU w"
    by (simp add: GetDisksStats_def Let_def and_then_def GetDisksStats_loop_vendor invoke_def
        split: sum.splits)
  show "gpuInfo (snd (GetHostInfo rh t t' w)) = gpuInfo w
        \<and> hasGPU (snd (GetHostInfo rh t t' w)) = hasGPU w"
    by (simp add: GetHostInfo_def Let_def invoke_def String_nonempty_def
        split: sum.splits option.splits bool.splits)
  show "gpuInfo (snd (GetMemoryStats rm t t' w)) = gpuInfo w
     \<and> hasGPU (snd (GetMemoryStats rm t t' w)) = hasGPU w"
    by (simp add: GetMemoryStats_def Let_def invoke_def String_nonempty_def
        split: sum.splits option.splits bool.splits)
  show "gpuInfo (snd (GetNetworkStats rn t t' w)) = gpuInfo w
     \<and> hasGPU (snd (GetNetworkStats rn t t' w)) = hasGPU w"
    by (simp add: GetNetworkStats_def Let_def invoke_def)
qed

section \<open>Facts about whole outputs\<close>




lemma sample_line_parse:
  assumes "pf ''1024'' = (1024, False)" and "pf ''10240'' = (10240, False)"
    and "pf ''215.50'' = (215.5, False)"
  shows "parseGPUNvidiaStats pf
           (''0, NVIDIA GeForce RTX 3080, 42, 1024, 10240, 215.50, 65'' @ [CR]) w =
         (Inr (append_slice (gpuStats w) rtx3080),
          w\<lparr>gpuInfo := (gpuInfo w)\<lparr>Name := ''NVIDIA GeForce RTX 3080''\<rparr>,
            gpuStats := append_slice (gpuStats w) rtx3080\<rparr>)"
proof -
  let ?line = "''0, NVIDIA GeForce RTX 3080, 42, 1024, 10240, 215.50, 65'' @ [CR]"
  have ne: "?line \<noteq> []" by simp
  have "parse_lines pf (Split ?line [LF]) w = parse_line pf ?line w"
    unfolding sample_line_lines by (rule parse_lines_single[OF ne])
  then show ?thesis
    unfolding parseGPUNvidiaStats_def parse_line_seven[OF sample_line_fields]
    by (simp add: and_then_def sample_ints float_or_zero_def assms rtx3080_def)
qed





section \<open>The claims\<close>

subsection \<open>C1: a failed fetch\<close>

text \<open>
  C1, as stated, fails. In a state where every family has a cached value and the
  interval has passed, a fetch that fails and delivers nothing makes the CPU-load accessor
  panic at \<^verbatim>\<open>cpuPct[0]\<close>, the host and the memory accessors panic on the nil pointer
  they were given, and the disk accessor panic on the nil usage record; the GPU accessor
  returns nil although samples are cached.
\<close>

theorem fetch_failure_counterexample:
  "fst (GetCPUStats ([], Some ''down'') (120 * Second) (120 * Second) warm) = Inl IndexOutOfRange
   \<and> fst (GetHostInfo (None, Some ''down'') (120 * Second) (120 * Second) warm)
        = Inl NilDereference
   \<and> fst (GetMemoryStats (None, Some ''down'') (120 * Second) (120 * Second) warm)
        = Inl NilDereference
   \<and> fst (GetDisksStats linux ([\<lparr> p_Device = ''sda1'', p_Mountpoint = ''/'' \<rparr>], None) usage_fails
             (120 * Second) (120 * Second) warm) = Inl NilDereference
   \<and> gpuStats warm = Some [card0]
   \<and> fst (GetGPUStats ParseFloat_plain ([], Some ''down'') (120 * Second) (120 * Second) warm)
        = Inr None"
  by (simp add: GetCPUStats_def GetHostInfo_def GetMemoryStats_def GetDisksStats_def
      GetGPUStats_def warm_def len_def intervals Sub_late index_def invoke_def and_then_def
      usage_fails_def Let_def)

text \<open>
  C1, amended: when the fetch fails, the GPU accessor (vendor nvidia) returns an
  explicit nil result, not the cached samples, and leaves the cached samples and the fetch
  time as they were; the network accessor returns what the library delivered with the
  error, which also replaces its cache; the CPU-identity accessor, given nothing by the
  library, returns the nil slice. None of the three panics. What the CPU-load, host, memory
  and disk accessors do after a failed fetch is not part of the statement.
\<close>

theorem fetch_failure_degrades:
  "(\<not> (gpuStats w \<noteq> None \<and> Sub t (lastFetchGPU w) < GPU_STATS_UPDATE_INTERVAL)
      \<and> Vendor (gpuInfo w) = ''nvidia'' \<and> snd rg \<noteq> None \<longrightarrow>
      GetGPUStats pf rg t t' w = (Inr None, invoke (exec_Output nvidia_query) w))
   \<and> (\<not> (0 < len (netInfo w) \<and> Sub t (lastFetchNet w) < NET_STATS_UPDATE_INTERVAL)
      \<and> snd rn \<noteq> None \<longrightarrow>
      GetNetworkStats rn t t' w =
        (Inr (fst rn), (invoke net_IOCounters w)\<lparr>lastFetchNet := t', netInfo := fst rn\<rparr>))
   \<and> (cpuInfo w = None \<and> snd ri \<noteq> None \<and> fst ri = [] \<longrightarrow>
      GetCPUInfo ri w = (Inr None, invoke cpu_Info w))"
proof (intro conjI impI)
  assume "\<not> (gpuStats w \<noteq> None \<and> Sub t (lastFetchGPU w) < GPU_STATS_UPDATE_INTERVAL)
      \<and> Vendor (gpuInfo w) = ''nvidia'' \<and> snd rg \<noteq> None"
  then show "GetGPUStats pf rg t t' w = (Inr None, invoke (exec_Output nvidia_query) w)"
    by (simp add: GetGPUStats_failure)
next
  assume "\<not> (0 < len (netInfo w) \<and> Sub t (lastFetchNet w) < NET_STATS_UPDATE_INTERVAL)
      \<and> snd rn \<noteq> None"
  then show "GetNetworkStats rn t t' w =
        (Inr (fst rn), (invoke net_IOCounters w)\<lparr>lastFetchNet := t', netInfo := fst rn\<rparr>)"
    by (simp add: GetNetworkStats_miss)
next
  assume "cpuInfo w = None \<and> snd ri \<noteq> None \<and> fst ri = []"
  then show "GetCPUInfo ri w = (Inr None, invoke cpu_Info w)"
    by (simp add: GetCPUInfo_nothing)
qed

text \<open>
  The three hypotheses of the amended C1 hold in the warm state at the late clock.
\<close>

theorem fetch_failure_degrades_witness:
  "\<not> (gpuStats warm \<noteq> None \<and> Sub (120 * Second) (lastFetchGPU warm) < GPU_STATS_UPDATE_INTERVAL)
   \<and> Vendor (gpuInfo warm) = ''nvidia''
   \<and> GetGPUStats ParseFloat_plain ([], Some ''down'') (120 * Second) (120 * Second) warm
        = (Inr None, warm\<lparr>calls := [exec_Output nvidia_query]\<rparr>)
   \<and> \<not> (0 < len (netInfo warm) \<and> Sub (120 * Second) (lastFetchNet warm) < NET_STATS_UPDATE_INTERVAL)
   \<and> fst (GetNetworkStats (None, Some ''down'') (120 * Second) (120 * Second) warm) = Inr None
   \<and> cpuInfo warm = None
   \<and> fst (GetCPUInfo ([], Some ''down'') warm) = Inr None"
  using
    fetch_failure_degrades[where w = warm and t = "120 * Second" and t' = "120 * Second"
      and pf = ParseFloat_plain and rg = "([], Some ''down'')" and rn = "(None, Some ''down'')"
      and ri = "([], Some ''down'')"]
  by (simp add: warm_def len_def intervals Sub_late invoke_def)

subsection \<open>C2: one record per card line\<close>

text \<open>
  C2 at a failing input: after the probe found the NVIDIA tool, two refreshes more than one
  second apart, each with the tool output of a single card. The first returns one record;
  the second returns two, because \<^verbatim>\<open>parseGPUNvidiaStats\<close> appends to the package variable
  that still holds the first sample. (\<open>parseGPUNvidiaStats_keeps_old\<close> is the general
  fact; \<open>parseGPUNvidiaData_one_per_line\<close> shows that the earlier copy of the parser
  returns one record per line.)
\<close>

theorem gpu_samples_accumulate:
  "fst (GetGPUStats ParseFloat_plain (''0, A, 1, 2, 3, 4, 5'' @ [LF], None) Second Second
          found_nvidia) =
     Inr (Some [\<lparr> g_Id = 0, g_Load = 0.01, g_MemoryUsage = 2, g_MemoryTotal = 3,
                   g_Power = 4, g_Temperature = 5 \<rparr>])
   \<and> fst (GetGPUStats ParseFloat_plain (''0, A, 1, 2, 3, 4, 5'' @ [LF], None)
            (3 * Second) (3 * Second)
            (snd (GetGPUStats ParseFloat_plain (''0, A, 1, 2, 3, 4, 5'' @ [LF], None)
                    Second Second found_nvidia))) =
     Inr (Some [\<lparr> g_Id = 0, g_Load = 0.01, g_MemoryUsage = 2, g_MemoryTotal = 3,
                   g_Power = 4, g_Temperature = 5 \<rparr>,
                \<lparr> g_Id = 0, g_Load = 0.01, g_MemoryUsage = 2, g_MemoryTotal = 3,
                   g_Power = 4, g_Temperature = 5 \<rparr>])"
proof -
  let ?out = "(''0, A, 1, 2, 3, 4, 5'' @ [LF], None :: string option)"
  let ?g = "\<lparr> g_Id = 0, g_Load = 0.01, g_MemoryUsage = 2, g_MemoryTotal = 3,
              g_Power = 4, g_Temperature = 5 \<rparr>"
  have miss1: "\<not> (Sub Second (lastFetchGPU found_nvidia) < GPU_STATS_UPDATE_INTERVAL
                  \<and> gpuStats found_nvidia \<noteq> None)"
    by (simp add: found_nvidia_eq init_def)
  have first: "GetGPUStats ParseFloat_plain ?out Second Second found_nvidia =
       (Inr (Some [?g]),
        found_nvidia\<lparr>calls := [exec_Run ''nvidia-smi'', exec_Output nvidia_query],
                     gpuInfo := \<lparr>Name = ''A'', Vendor = ''nvidia''\<rparr>,
                     gpuStats := Some [?g], lastFetchGPU := Second\<rparr>)"
    unfolding GetGPUStats_def Let_def if_not_P[OF miss1] fst_conv snd_conv one_card_parse
    by (simp add: and_then_def found_nvidia_eq init_def invoke_def append_slice_def)
  let ?w1 = "found_nvidia\<lparr>calls := [exec_Run ''nvidia-smi'', exec_Output nvidia_query],
                     gpuInfo := \<lparr>Name = ''A'', Vendor = ''nvidia''\<rparr>,
                     gpuStats := Some [?g], lastFetchGPU := Second\<rparr>"
  have miss2: "\<not> (Sub (3 * Second) (lastFetchGPU ?w1) < GPU_STATS_UPDATE_INTERVAL
                  \<and> gpuStats ?w1 \<noteq> None)"
    by (simp add: Sub_def Second_def GPU_STATS_UPDATE_INTERVAL_def maxDuration_def
        minDuration_def)
  have second: "fst (GetGPUStats ParseFloat_plain ?out (3 * Second) (3 * Second) ?w1) =
       Inr (Some [?g, ?g])"
    unfolding GetGPUStats_def Let_def if_not_P[OF miss2] fst_conv snd_conv one_card_parse
    by (simp add: and_then_def found_nvidia_eq init_def invoke_def append_slice_def)
  show ?thesis unfolding first snd_conv fst_conv using second by simp
qed

subsection \<open>C3: cache freshness\<close>

text \<open>
  C3, as stated, fails for the GPU family: in the initial state no GPU sample is cached,
  yet the accessor invokes no tool, because no vendor has been detected.
\<close>

theorem cache_freshness_gpu_counterexample:
  "gpuStats init = None
   \<and> calls (snd (GetGPUStats ParseFloat_plain (''0, A, 1, 2, 3, 4, 5'' @ [LF], None)
                   (120 * Second) (120 * Second) init)) = calls init"
  by (simp add: GetGPUStats_def init_def)

text \<open>
  C3, amended. For CPU load, disks and network: when a cached value exists (the slice is
  not empty) and less than the interval has elapsed since the recorded fetch, the accessor
  returns the cached value, invokes nothing and changes nothing; otherwise it invokes the
  library. For host and memory: the same when a cached record exists and less than the
  interval has elapsed, and the library is invoked when at least the interval has elapsed
  (nothing is said of a nil cache inside the interval). For the GPU: a non-nil cache inside
  the interval is returned untouched; otherwise the vendor tool is invoked when the vendor
  is nvidia, and no process is started for any other vendor.
\<close>

theorem cache_freshness:
  "(0 < len (cpuStats w) \<and> Sub t (lastFetchCPU w) < CPU_STATS_UPDATE_INTERVAL \<longrightarrow>
      GetCPUStats rc t t' w = (Inr (cpuStats w), w))
   \<and> (\<not> (0 < len (cpuStats w) \<and> Sub t (lastFetchCPU w) < CPU_STATS_UPDATE_INTERVAL) \<longrightarrow>
      calls (snd (GetCPUStats rc t t' w)) = calls w @ [cpu_Percent])
   \<and> (0 < len (disksStats w) \<and> Sub t (lastFetchDisk w) < DISK_STATS_UPDATE_INTERVAL \<longrightarrow>
      GetDisksStats pl rd usage t t' w = (Inr (disksStats w), w))
   \<and> (\<not> (0 < len (disksStats w) \<and> Sub t (lastFetchDisk w) < DISK_STATS_UPDATE_INTERVAL) \<longrightarrow>
      (\<exists>rest. calls (snd (GetDisksStats pl rd usage t t' w)) = calls w @ disk_Partitions # rest))
   \<and> (0 < len (netInfo w) \<and> Sub t (lastFetchNet w) < NET_STATS_UPDATE_INTERVAL \<longrightarrow>
      GetNetworkStats rn t t' w = (Inr (netInfo w), w))
   \<and> (\<not> (0 < len (netInfo w) \<and> Sub t (lastFetchNet w) < NET_STATS_UPDATE_INTERVAL) \<longrightarrow>
      calls (snd (GetNetworkStats rn t t' w)) = calls w @ [net_IOCounters])
   \<and> (hostInfo w \<noteq> None \<and> Sub t (lastFetchHost w) < HOST_INFO_UPDATE_INTERVAL \<longrightarrow>
      GetHostInfo rh t t' w = (Inr (hostInfo w), w))
   \<and> (\<not> Sub t (lastFetchHost w) < HOST_INFO_UPDATE_INTERVAL \<longrightarrow>
      calls (snd (GetHostInfo rh t t' w)) = calls w @ [host_Info])
   \<and> (memInfo w \<noteq> None \<and> Sub t (lastFetchMem w) < MEM_STATS_UPDATE_INTERVAL \<longrightarrow>
      GetMemoryStats rm t t' w = (Inr (memInfo w), w))
   \<and> (\<not> Sub t (lastFetchMem w) < MEM_STATS_UPDATE_INTERVAL \<longrightarrow>
      calls (snd (GetMemoryStats rm t t' w)) = calls w @ [mem_VirtualMemory])
   \<and> (gpuStats w \<noteq> None \<and> Sub t (lastFetchGPU w) < GPU_STATS_UPDATE_INTERVAL \<longrightarrow>
      GetGPUStats pf rg t t' w = (Inr (gpuStats w), w))
   \<and> (\<not> (gpuStats w \<noteq> None \<and> Sub t (lastFetchGPU w) < GPU_STATS_UPDATE_INTERVAL)
       \<and> Vendor (gpuInfo w) = ''nvidia'' \<longrightarrow>
      calls (snd (GetGPUStats pf rg t t' w)) = calls w @ [exec_Output nvidia_query])
   \<and> (\<not> (gpuStats w \<noteq> None \<and> Sub t (lastFetchGPU w) < GPU_STATS_UPDATE_INTERVAL)
       \<and> Vendor (gpuInfo w) \<noteq> ''nvidia'' \<longrightarrow>
      calls (snd (GetGPUStats pf rg t t' w)) = calls w)"
proof (intro conjI impI)
  assume "0 < len (cpuStats w) \<and> Sub t (lastFetchCPU w) < CPU_STATS_UPDATE_INTERVAL"
  then show "GetCPUStats rc t t' w = (Inr (cpuStats w), w)" by (rule GetCPUStats_hit)
next
  assume "\<not> (0 < len (cpuStats w) \<and> Sub t (lastFetchCPU w) < CPU_STATS_UPDATE_INTERVAL)"
  then show "calls (snd (GetCPUStats rc t t' w)) = calls w @ [cpu_Percent]"
    by (rule GetCPUStats_miss)
next
  assume "0 < len (disksStats w) \<and> Sub t (lastFetchDisk w) < DISK_STATS_UPDATE_INTERVAL"
  then show "GetDisksStats pl rd usage t t' w = (Inr (disksStats w), w)"
    by (rule GetDisksStats_hit)
next
  assume "\<not> (0 < len (disksStats w) \<and> Sub t (lastFetchDisk w) < DISK_STATS_UPDATE_INTERVAL)"
  then show "\<exists>rest. calls (snd (GetDisksStats pl rd usage t t' w)) = calls w @ disk_Partitions # rest"
    by (rule GetDisksStats_miss)
next
  assume "0 < len (netInfo w) \<and> Sub t (lastFetchNet w) < NET_STATS_UPDATE_INTERVAL"
  then show "GetNetworkStats rn t t' w = (Inr (netInfo w), w)" by (rule GetNetworkStats_hit)
next
  assume "\<not> (0 < len (netInfo w) \<and> Sub t (lastFetchNet w) < NET_STATS_UPDATE_INTERVAL)"
  then show "calls (snd (GetNetworkStats rn t t' w)) = calls w @ [net_IOCounters]"
    by (simp add: GetNetworkStats_miss invoke_def)
next
  assume "hostInfo w \<noteq> None \<and> Sub t (lastFetchHost w) < HOST_INFO_UPDATE_INTERVAL"
  then show "GetHostInfo rh t t' w = (Inr (hostInfo w), w)" by (rule GetHostInfo_hit)
next
  assume "\<not> Sub t (lastFetchHost w) < HOST_INFO_UPDATE_INTERVAL"
  then show "calls (snd (GetHostInfo rh t t' w)) = calls w @ [host_Info]"
    by (rule GetHostInfo_miss)
next
  assume "memInfo w \<noteq> None \<and> Sub t (lastFetchMem w) < MEM_STATS_UPDATE_INTERVAL"
  then show "GetMemoryStats rm t t' w = (Inr (memInfo w), w)" by (rule GetMemoryStats_hit)
next
  assume "\<not> Sub t (lastFetchMem w) < MEM_STATS_UPDATE_INTERVAL"
  then show "calls (snd (GetMemoryStats rm t t' w)) = calls w @ [mem_VirtualMemory]"
    by (rule GetMemoryStats_miss)
next
  assume "gpuStats w \<noteq> None \<and> Sub t (lastFetchGPU w) < GPU_STATS_UPDATE_INTERVAL"
  then show "GetGPUStats pf rg t t' w = (Inr (gpuStats w), w)" by (rule GetGPUStats_hit)
next
  assume "\<not> (gpuStats w \<noteq> None \<and> Sub t (lastFetchGPU w) < GPU_STATS_UPDATE_INTERVAL)
       \<and> Vendor (gpuInfo w) = ''nvidia''"
  then show "calls (snd (GetGPUStats pf rg t t' w)) = calls w @ [exec_Output nvidia_query]"
    by (simp add: GetGPUStats_miss_nvidia)
next
  assume "\<not> (gpuStats w \<noteq> None \<and> Sub t (lastFetchGPU w) < GPU_STATS_UPDATE_INTERVAL)
       \<and> Vendor (gpuInfo w) \<noteq> ''nvidia''"
  then show "calls (snd (GetGPUStats pf rg t t' w)) = calls w"
    by (simp add: GetGPUStats_miss_other)
qed

text \<open>
  The hypotheses of the amended C3 hold in the warm state just after the fetch (hits), in
  the warm state two minutes after the zero time (misses), and in the initial state (GPU
  without vendor).
\<close>

theorem cache_freshness_witness:
  "(0 < len (cpuStats warm) \<and> Sub (10 * Second + 1) (lastFetchCPU warm) < CPU_STATS_UPDATE_INTERVAL)
   \<and> GetCPUStats ([], Some ''down'') (10 * Second + 1) (10 * Second + 1) warm
        = (Inr (cpuStats warm), warm)
   \<and> (gpuStats warm \<noteq> None \<and> Sub (10 * Second + 1) (lastFetchGPU warm) < GPU_STATS_UPDATE_INTERVAL)
   \<and> GetGPUStats ParseFloat_plain ([], Some ''down'') (10 * Second + 1) (10 * Second + 1) warm
        = (Inr (gpuStats warm), warm)
   \<and> GetDisksStats linux ([], Some ''down'') usage_fails (10 * Second + 1) (10 * Second + 1) warm
        = (Inr (disksStats warm), warm)
   \<and> GetNetworkStats (None, Some ''down'') (10 * Second + 1) (10 * Second + 1) warm
        = (Inr (netInfo warm), warm)
   \<and> GetHostInfo (None, Some ''down'') (10 * Second + 1) (10 * Second + 1) warm
        = (Inr (hostInfo warm), warm)
   \<and> GetMemoryStats (None, Some ''down'') (10 * Second + 1) (10 * Second + 1) warm
        = (Inr (memInfo warm), warm)
   \<and> \<not> (0 < len (cpuStats warm) \<and> Sub (120 * Second) (lastFetchCPU warm) < CPU_STATS_UPDATE_INTERVAL)
   \<and> calls (snd (GetCPUStats ([], Some ''down'') (120 * Second) (120 * Second) warm))
        = [cpu_Percent]
   \<and> (\<exists>rest. calls (snd (GetDisksStats linux ([], Some ''down'') usage_fails
                            (120 * Second) (120 * Second) warm)) = disk_Partitions # rest)
   \<and> calls (snd (GetNetworkStats (None, Some ''down'') (120 * Second) (120 * Second) warm))
        = [net_IOCounters]
   \<and> calls (snd (GetHostInfo (None, Some ''down'') (120 * Second) (120 * Second) warm))
        = [host_Info]
   \<and> calls (snd (GetMemoryStats (None, Some ''down'') (120 * Second) (120 * Second) warm))
        = [mem_VirtualMemory]
   \<and> calls (snd (GetGPUStats ParseFloat_plain ([], Some ''down'') (120 * Second) (120 * Second) warm))
        = [exec_Output nvidia_query]
   \<and> Vendor (gpuInfo init) \<noteq> ''nvidia''
   \<and> calls (snd (GetGPUStats ParseFloat_plain ([], Some ''down'') (120 * Second) (120 * Second) init))
        = []"
  using
    cache_freshness[where w = warm and t = "10 * Second + 1" and t' = "10 * Second + 1"
      and rc = "([], Some ''down'')" and pl = linux and rd = "([], Some ''down'')"
      and usage = usage_fails and rn = "(None, Some ''down'')" and rh = "(None, Some ''down'')"
      and rm = "(None, Some ''down'')" and pf = ParseFloat_plain and rg = "([], Some ''down'')"]
    cache_freshness[where w = warm and t = "120 * Second" and t' = "120 * Second"
      and rc = "([], Some ''down'')" and pl = linux and rd = "([], Some ''down'')"
      and usage = usage_fails and rn = "(None, Some ''down'')" and rh = "(None, Some ''down'')"
      and rm = "(None, Some ''down'')" and pf = ParseFloat_plain and rg = "([], Some ''down'')"]
    cache_freshness[where w = init and t = "120 * Second" and t' = "120 * Second"
      and rc = "([], Some ''down'')" and pl = linux and rd = "([], Some ''down'')"
      and usage = usage_fails and rn = "(None, Some ''down'')" and rh = "(None, Some ''down'')"
      and rm = "(None, Some ''down'')" and pf = ParseFloat_plain and rg = "([], Some ''down'')"]
  by (simp add: warm_def init_def len_def intervals Sub_early Sub_late)

subsection \<open>C4: memory change detection\<close>

text \<open>
  C4: on a refresh of the memory family (the interval has passed, a record is cached, the
  library delivers a record), a sample with the same used-percent as the cached record
  makes the accessor return the cached record and keep it; a sample with a different
  used-percent replaces the cache and is returned.
\<close>

theorem memory_change_detection:
  assumes "\<not> Sub t (lastFetchMem w) < MEM_STATS_UPDATE_INTERVAL"
    and "memInfo w = Some old" and "fst res = Some new"
  shows "(m_UsedPercent new = m_UsedPercent old \<longrightarrow>
            GetMemoryStats res t t' w =
              (Inr (Some old), (invoke mem_VirtualMemory w)\<lparr>lastFetchMem := t'\<rparr>))
       \<and> (m_UsedPercent new \<noteq> m_UsedPercent old \<longrightarrow>
            GetMemoryStats res t t' w =
              (Inr (Some new),
               (invoke mem_VirtualMemory w)\<lparr>lastFetchMem := t', memInfo := Some new\<rparr>))"
  using assms by (auto simp: GetMemoryStats_def Let_def invoke_def)

text \<open>
  Both cases of C4 at the warm state: a sample with 50 percent used and a different amount
  available returns the cached record; a sample with 75 percent used is returned itself.
\<close>

theorem memory_change_detection_witness:
  "\<not> Sub (120 * Second) (lastFetchMem warm) < MEM_STATS_UPDATE_INTERVAL
   \<and> memInfo warm = Some mem_half
   \<and> fst (GetMemoryStats
            (Some \<lparr> m_Total = 16, m_Available = 7, m_Used = 8, m_UsedPercent = 50 \<rparr>, None)
            (120 * Second) (120 * Second) warm) = Inr (Some mem_half)
   \<and> fst (GetMemoryStats
            (Some \<lparr> m_Total = 16, m_Available = 4, m_Used = 12, m_UsedPercent = 75 \<rparr>, None)
            (120 * Second) (120 * Second) warm)
       = Inr (Some \<lparr> m_Total = 16, m_Available = 4, m_Used = 12, m_UsedPercent = 75 \<rparr>)"
proof -
  have m: "\<not> Sub (120 * Second) (lastFetchMem warm) < MEM_STATS_UPDATE_INTERVAL"
    by (simp add: warm_def MEM_STATS_UPDATE_INTERVAL_def Sub_late)
  have c: "memInfo warm = Some mem_half" by (simp add: warm_def)
  show ?thesis
    using m c
      memory_change_detection[OF m c, of
        "(Some \<lparr> m_Total = 16, m_Available = 7, m_Used = 8, m_UsedPercent = 50 \<rparr>, None)"
        "\<lparr> m_Total = 16, m_Available = 7, m_Used = 8, m_UsedPercent = 50 \<rparr>" "120 * Second"]
      memory_change_detection[OF m c, of
        "(Some \<lparr> m_Total = 16, m_Available = 4, m_Used = 12, m_UsedPercent = 75 \<rparr>, None)"
        "\<lparr> m_Total = 16, m_Available = 4, m_Used = 12, m_UsedPercent = 75 \<rparr>" "120 * Second"]
    by (simp add: mem_half_def)
qed

subsection \<open>C5: totality of the GPU parser\<close>

text \<open>
  C5 at a failing input: a non-empty line without the separator has one field, and the
  parser panics at \<^verbatim>\<open>data[1]\<close>, whatever the float parser and the state are.
  (\<open>parse_line_short\<close>: every line with fewer than seven fields panics.)
\<close>

theorem gpu_parse_short_line_panics:
  "fst (parseGPUNvidiaStats pf ''No devices were found'' w) = Inl IndexOutOfRange"
proof -
  have l: "Split ''No devices were found'' [LF] = [''No devices were found'']"
    by (simp add: Split_def LF_def)
  have "length (Split ''No devices were found'' '', '') < 7" by (simp add: Split_def)
  from parse_line_short[OF this, of pf w] show ?thesis
    unfolding parseGPUNvidiaStats_def l by (simp add: and_then_def)
qed

subsection \<open>C6: a field that fails to parse\<close>




subsection \<open>C7: the well-formed line\<close>

text \<open>
  C7 at a failing input. In the initial state the line gives exactly the record of the
  claim, with the carriage return removed before the temperature is parsed. In a state that
  already holds one sample, the same line gives two records: the cached one and the record
  of the line, because the parser appends to the package variable (the defect of C2).
  (\<open>sample_line_parse\<close> is the general fact, for every state and every float parser
  that reads the three decimal fields as the numbers they denote.)
\<close>

theorem gpu_wellformed_line_after_sample:
  "fst (parseGPUNvidiaStats ParseFloat_plain
          (''0, NVIDIA GeForce RTX 3080, 42, 1024, 10240, 215.50, 65'' @ [CR]) init)
     = Inr (Some [rtx3080])
   \<and> gpuStats warm = Some [card0]
   \<and> fst (parseGPUNvidiaStats ParseFloat_plain
          (''0, NVIDIA GeForce RTX 3080, 42, 1024, 10240, 215.50, 65'' @ [CR]) warm)
     = Inr (Some [card0, rtx3080])"
proof -
  have i: "gpuStats init = None" by (simp add: init_def)
  have c: "gpuStats warm = Some [card0]" by (simp add: warm_def)
  show ?thesis
    unfolding sample_line_parse[OF sample_floats] fst_conv i c
    by (simp add: append_slice_def)
qed

subsection \<open>C8: memoization of the vendor probe\<close>

text \<open>
  C8: after a call of the probe that returned true, every later call returns true and
  leaves the state, and so the list of invocations, as it is; after a call that returned
  false the flag is still unset and the vendor record is what it was, and the next call
  starts the NVIDIA tool again. No accessor writes the flag or the vendor
  (\<open>GetGPUStats_vendor\<close>, \<open>accessors_keep_vendor\<close>), so this holds with other calls
  in between. The statement is about \<^verbatim>\<open>HasGPU\<close> of \<^verbatim>\<open>devices.go\<close>; the probe of
  the older copy has no flag and starts the tools at every call
  (\<open>HasGPU_earlier_probes\<close>).
\<close>

theorem vendor_probe_memoized:
  "(fst (HasGPU run w) \<longrightarrow>
      (\<forall>run'. HasGPU run' (snd (HasGPU run w)) = (True, snd (HasGPU run w)))
      \<and> (\<forall>runs. HasGPU_calls runs (snd (HasGPU run w)) = snd (HasGPU run w)))
   \<and> (\<not> fst (HasGPU run w) \<longrightarrow>
      \<not> hasGPU (snd (HasGPU run w))
      \<and> gpuInfo (snd (HasGPU run w)) = gpuInfo w
      \<and> (\<forall>run'. \<exists>rest. calls (snd (HasGPU run' (snd (HasGPU run w)))) =
             calls (snd (HasGPU run w)) @ exec_Run ''nvidia-smi'' # rest))"
proof (intro conjI impI allI)
  fix run' assume "fst (HasGPU run w)"
  then show "HasGPU run' (snd (HasGPU run w)) = (True, snd (HasGPU run w))"
    by (simp add: HasGPU_true_sets HasGPU_memo)
next
  fix runs assume "fst (HasGPU run w)"
  then show "HasGPU_calls runs (snd (HasGPU run w)) = snd (HasGPU run w)"
    by (simp add: HasGPU_true_sets HasGPU_calls_memo)
next
  assume f: "\<not> fst (HasGPU run w)"
  then have nh: "\<not> hasGPU w" by (auto simp: HasGPU_def)
  from f nh show "\<not> hasGPU (snd (HasGPU run w))" by (simp add: HasGPU_false)
  from f show "gpuInfo (snd (HasGPU run w)) = gpuInfo w" by (simp add: HasGPU_false)
  fix run'
  from f nh have "\<not> hasGPU (snd (HasGPU run w))" by (simp add: HasGPU_false)
  then show "\<exists>rest. calls (snd (HasGPU run' (snd (HasGPU run w)))) =
             calls (snd (HasGPU run w)) @ exec_Run ''nvidia-smi'' # rest"
    by (rule HasGPU_probes)
qed

text \<open>
  C8 from the initial state: a probe that finds the NVIDIA tool, followed by another
  probe; and a probe that finds nothing, followed by one that probes again.
\<close>

theorem vendor_probe_memoized_witness:
  "fst (HasGPU nvidia_present init)
   \<and> calls (snd (HasGPU nvidia_present init)) = [exec_Run ''nvidia-smi'']
   \<and> calls (snd (HasGPU no_tools (snd (HasGPU nvidia_present init)))) = [exec_Run ''nvidia-smi'']
   \<and> \<not> fst (HasGPU no_tools init)
   \<and> Vendor (gpuInfo (snd (HasGPU no_tools init))) = []
   \<and> calls (snd (HasGPU nvidia_present (snd (HasGPU no_tools init)))) =
       [exec_Run ''nvidia-smi'', exec_Run ''rocm-smi'', exec_Run ''nvidia-smi'']"
  using vendor_probe_memoized[of nvidia_present init] vendor_probe_memoized[of no_tools init]
  by (simp add: HasGPU_def init_def invoke_def nvidia_present_def no_tools_def)

subsection \<open>C9: the virtual-disk classifier\<close>

text \<open>
  C9: the classifier returns true exactly when the platform is windows and the drive type
  is RAM disk, or fixed disk with no I/O-counter entry.
\<close>

theorem virtual_disk_classifier:
  "fst (isVirtualDisk pl path w) =
     (GOOS pl = ''windows''
      \<and> (driveType pl (UTF16PtrFromString path) = DRIVE_RAMDISK
         \<or> (driveType pl (UTF16PtrFromString path) = DRIVE_FIXED
            \<and> length (ioCounters pl path) = 0)))"
  by (simp add: isVirtualDisk_def Let_def DRIVE_RAMDISK_def DRIVE_FIXED_def)

subsection \<open>C10: GPU statistics without a vendor\<close>

text \<open>
  C10: while the vendor is unset, the GPU accessor returns the cached slice and leaves the
  whole state, the list of invocations included, as it is.
\<close>

theorem gpu_stats_without_vendor:
  "Vendor (gpuInfo w) = [] \<Longrightarrow> GetGPUStats pf out t t' w = (Inr (gpuStats w), w)"
  by (simp add: GetGPUStats_def)

text \<open>
  C10 in the initial state: the result is the nil slice.
\<close>

theorem gpu_stats_without_vendor_witness:
  "Vendor (gpuInfo init) = []
   \<and> GetGPUStats ParseFloat_plain (''0, A, 1, 2, 3, 4, 5'' @ [LF], None) Second Second init
       = (Inr None, init)"
proof -
  have v: "Vendor (gpuInfo init) = []" by (simp add: init_def)
  have g: "gpuStats init = None" by (simp add: init_def)
  show ?thesis using gpu_stats_without_vendor[OF v] v g by simp
qed

end
